theory Spec2Isabelle
  imports Main "HOL-Library.AList"
begin

section \<open>Password and account expiry (userlog/password_expiry.py)\<close>

text \<open>
  A shallow embedding of \<^verbatim>\<open>userlog/password_expiry.py\<close>: the settings resolver
  \<^verbatim>\<open>ExpirySettings\<close>, the two expiry predicates, the pre-save receiver that stamps the
  date of a password change, and the authentication backend \<^verbatim>\<open>AccountExpiryBackend\<close>.

  Conventions of the embedding.
  \<^item> A Python value that the module reads from a user object is a \<open>pyval\<close>: \<^verbatim>\<open>None\<close>,
    a boolean, a string or a datetime. A datetime is the number of microseconds since
    the epoch, an \<open>int\<close> between \<open>datetime_min\<close> (year 1) and \<open>datetime_max\<close> (the end of
    year 9999); a \<^verbatim>\<open>timedelta\<close> of more than 999999999 days, and a subtraction whose
    result leaves that range, raise \<open>OverflowError\<close> as the library does. Equality of
    \<open>pyval\<close> is Python's \<^verbatim>\<open>==\<close> on these values.
  \<^item> A user object is its primary key (\<^verbatim>\<open>user.pk\<close>, \<^verbatim>\<open>None\<close> before the first save)
    and its attribute dictionary: \<^verbatim>\<open>hasattr(u, n)\<close> is \<open>attrs u n \<noteq> None\<close>,
    \<^verbatim>\<open>getattr\<close> and \<^verbatim>\<open>setattr\<close> read and write the dictionary, and reading a missing
    attribute is the error \<open>AttributeError\<close>.
  \<^item> Every \<^verbatim>\<open>raise\<close> is a value \<open>Inl e\<close>; a normal return is \<open>Inr v\<close>.
  \<^item> \<^verbatim>\<open>timezone.now()\<close> is a parameter of the function that calls it: the reading
    of the clock at that call.
  \<^item> The effects of a login attempt (log records, signals sent, the table of users)
    are fields of an explicit \<open>world\<close> that \<open>authenticate\<close> takes and returns.
\<close>

subsection \<open>Python values\<close>

datatype pyval = VNone | VBool bool | VStr string | VTime int

text \<open>Truth value testing: \<^verbatim>\<open>None\<close>, \<^verbatim>\<open>False\<close> and the empty string are false, a
  datetime is always true.\<close>

fun truthy :: "pyval \<Rightarrow> bool" where
  "truthy VNone = False"
| "truthy (VBool b) = b"
| "truthy (VStr s) = (s \<noteq> [])"
| "truthy (VTime t) = True"

datatype error =
    PermissionDenied string
  | DoesNotExist
  | MultipleObjectsReturned
  | AttributeError string
  | TypeError
  | OverflowError

text \<open>\<^verbatim>\<open>x < earliest\<close> where \<^verbatim>\<open>earliest\<close> is a datetime: only another datetime can be
  compared with it.\<close>

fun datetime_lt :: "pyval \<Rightarrow> int \<Rightarrow> error + pyval" where
  "datetime_lt (VTime t) e = Inr (VBool (t < e))"
| "datetime_lt v e = Inl TypeError"

text \<open>\<^verbatim>\<open>x and x < earliest\<close>: a false \<^verbatim>\<open>x\<close> is itself the value of the expression.\<close>

definition and_lt :: "pyval \<Rightarrow> int \<Rightarrow> error + pyval" where
  "and_lt x e = (if truthy x then datetime_lt x e else Inr x)"

text \<open>The length of \<open>n\<close> days, in microseconds.\<close>

definition timedelta_days :: "int \<Rightarrow> int" where
  "timedelta_days n = n * 86400000000"

text \<open>\<^verbatim>\<open>timedelta(days=n)\<close>: the library refuses more than 999999999 days in either
  direction.\<close>

definition timedelta :: "int \<Rightarrow> error + int" where
  "timedelta n =
     (if - 999999999 \<le> n \<and> n \<le> 999999999 then Inr (timedelta_days n)
      else Inl OverflowError)"

text \<open>The range of the library's datetime: from 0001-01-01 00:00:00 to
  9999-12-31 23:59:59.999999, in microseconds since 1970-01-01.\<close>

definition datetime_min :: int where
  "datetime_min = - 62135596800000000"

definition datetime_max :: int where
  "datetime_max = 253402300799999999"

definition valid_datetime :: "int \<Rightarrow> bool" where
  "valid_datetime t = (datetime_min \<le> t \<and> t \<le> datetime_max)"

text \<open>\<^verbatim>\<open>t - d\<close> for a datetime \<^verbatim>\<open>t\<close> and a timedelta \<^verbatim>\<open>d\<close>.\<close>

definition datetime_sub :: "int \<Rightarrow> int \<Rightarrow> error + int" where
  "datetime_sub t d = (if valid_datetime (t - d) then Inr (t - d) else Inl OverflowError)"

subsection \<open>User objects\<close>

record user =
  pk :: "int option"
  attrs :: "string \<rightharpoonup> pyval"

definition getattr :: "user \<Rightarrow> string \<Rightarrow> error + pyval" where
  "getattr u n = (case attrs u n of None \<Rightarrow> Inl (AttributeError n) | Some v \<Rightarrow> Inr v)"

definition setattr :: "user \<Rightarrow> string \<Rightarrow> pyval \<Rightarrow> user" where
  "setattr u n v = u\<lparr>attrs := (attrs u)(n \<mapsto> v)\<rparr>"

subsection \<open>Settings\<close>

text \<open>The five keys of \<^verbatim>\<open>django.conf.settings\<close> that the module reads. \<open>None\<close> is a key
  that is missing or set to \<^verbatim>\<open>None\<close> (\<^verbatim>\<open>getattr(settings, KEY, None)\<close>).\<close>

record settings =
  PASSWORD_EXPIRY_DAYS :: "int option"
  PASSWORD_EXPIRY_WARNING_DAYS :: "int option"
  AUTH_USER_MODEL_PASSWORD_CHANGE_DATE_ATTR :: "string option"
  AUTH_USER_MODEL_PASSWORD_ATTR :: "string option"
  ACCOUNT_EXPIRY_DAYS :: "int option"

record ExpirySettings =
  num_days :: int
  num_warning_days :: int
  date_changed :: "string option"
  password :: string
  account_expiry :: int

text \<open>\<^verbatim>\<open>x or 0\<close> on an optional integer.\<close>

definition or_zero :: "int option \<Rightarrow> int" where
  "or_zero x = (case x of None \<Rightarrow> 0 | Some n \<Rightarrow> if n = 0 then 0 else n)"

text \<open>\<^verbatim>\<open>x or None\<close> on an optional string: the empty string is false.\<close>

definition or_none :: "string option \<Rightarrow> string option" where
  "or_none x = (case x of None \<Rightarrow> None | Some s \<Rightarrow> if s = [] then None else Some s)"

text \<open>\<^verbatim>\<open>x or d\<close> on an optional string with a default string.\<close>

definition or_default :: "string option \<Rightarrow> string \<Rightarrow> string" where
  "or_default x d = (case x of None \<Rightarrow> d | Some s \<Rightarrow> if s = [] then d else s)"

definition ExpirySettings_get :: "settings \<Rightarrow> ExpirySettings" where
  "ExpirySettings_get cfg =
     \<lparr> num_days = or_zero (PASSWORD_EXPIRY_DAYS cfg),
       num_warning_days = or_zero (PASSWORD_EXPIRY_WARNING_DAYS cfg),
       date_changed = or_none (AUTH_USER_MODEL_PASSWORD_CHANGE_DATE_ATTR cfg),
       password = or_default (AUTH_USER_MODEL_PASSWORD_ATTR cfg) ''password'',
       account_expiry = or_zero (ACCOUNT_EXPIRY_DAYS cfg) \<rparr>"

text \<open>The two cutoffs: \<open>Inr None\<close> when the check is disabled, \<open>Inr (Some c)\<close> for the
  cutoff \<open>c\<close>, and the error of the datetime arithmetic otherwise.\<close>

definition earliest_possible_login :: "ExpirySettings \<Rightarrow> int \<Rightarrow> error + int option" where
  "earliest_possible_login self now =
     (if account_expiry self > 0 then
        (case timedelta (account_expiry self) of
           Inl e \<Rightarrow> Inl e
         | Inr d \<Rightarrow>
             (case datetime_sub now d of
                Inl e \<Rightarrow> Inl e
              | Inr c \<Rightarrow> Inr (Some c)))
      else Inr None)"

definition earliest_possible_password_change ::
  "ExpirySettings \<Rightarrow> int \<Rightarrow> error + int option" where
  "earliest_possible_password_change self now =
     (if num_days self > 0 then
        (case timedelta (num_days self) of
           Inl e \<Rightarrow> Inl e
         | Inr d \<Rightarrow>
             (case datetime_sub now d of
                Inl e \<Rightarrow> Inl e
              | Inr c \<Rightarrow> Inr (Some c)))
      else Inr None)"

subsection \<open>The expiry predicates\<close>

text \<open>A record of the \<^verbatim>\<open>django.security\<close> logger: its level, the format string and,
  for the two \<^verbatim>\<open>info\<close> records, the user that is formatted into it.\<close>

datatype log_record = Warning string | Info string user

text \<open>The predicates return their value together with the log records they wrote. The
  cutoff is computed first, so its \<open>OverflowError\<close> is raised before the record is read.\<close>

definition get_password_change_date :: "settings \<Rightarrow> user \<Rightarrow> pyval \<times> log_record list" where
  "get_password_change_date cfg u =
     (case date_changed (ExpirySettings_get cfg) of
        None \<Rightarrow> (VNone, [])
      | Some attr \<Rightarrow>
          if attr \<noteq> [] then
            (case attrs u attr of
               Some v \<Rightarrow> (v, [])
             | None \<Rightarrow>
                 (VNone, [Warning (''User model does not have a '' @ attr @ '' attribute'')]))
          else (VNone, []))"

definition is_password_expired ::
  "settings \<Rightarrow> int \<Rightarrow> user \<Rightarrow> (error + pyval) \<times> log_record list" where
  "is_password_expired cfg now u =
     (case earliest_possible_password_change (ExpirySettings_get cfg) now of
        Inl e \<Rightarrow> (Inl e, [])
      | Inr (Some earliest) \<Rightarrow>
          (case get_password_change_date cfg u of
             (change_date, lg) \<Rightarrow> (and_lt change_date earliest, lg))
      | Inr None \<Rightarrow> (Inr (VBool False), []))"

definition get_user_last_login :: "user \<Rightarrow> pyval \<times> log_record list" where
  "get_user_last_login u =
     (case attrs u ''last_login'' of
        Some v \<Rightarrow> (v, [])
      | None \<Rightarrow>
          (VNone,
           [Warning ''User model doesn't have last_login field. ACCOUNT_EXPIRY_DAYS setting will have no effect.'']))"

definition is_account_expired ::
  "settings \<Rightarrow> int \<Rightarrow> user \<Rightarrow> (error + pyval) \<times> log_record list" where
  "is_account_expired cfg now u =
     (case earliest_possible_login (ExpirySettings_get cfg) now of
        Inl e \<Rightarrow> (Inl e, [])
      | Inr (Some earliest) \<Rightarrow>
          (case get_user_last_login u of
             (last_login, lg) \<Rightarrow> (and_lt last_login earliest, lg))
      | Inr None \<Rightarrow> (Inr (VBool False), []))"

subsection \<open>The table of users\<close>

text \<open>
  The table of the user model is an association list from primary key to the stored
  attributes, read as a finite map: the first binding of a key is its row
  (\<^const>\<open>map_of\<close>, \<^const>\<open>AList.update\<close>, \<^const>\<open>AList.clearjunk\<close>). The query engine
  belongs to the host; the model keeps what the module relies on: a query by primary
  key or by natural key returns the one matching row, raises \<open>DoesNotExist\<close> when
  there is none and \<open>MultipleObjectsReturned\<close> when there are several.
\<close>

type_synonym table = "(int \<times> (string \<rightharpoonup> pyval)) list"

definition objects_get :: "table \<Rightarrow> int \<Rightarrow> error + user" where
  "objects_get d k =
     (case map_of d k of
        None \<Rightarrow> Inl DoesNotExist
      | Some a \<Rightarrow> Inr \<lparr>pk = Some k, attrs = a\<rparr>)"

definition get_by_natural_key :: "table \<Rightarrow> string \<Rightarrow> pyval \<Rightarrow> error + user" where
  "get_by_natural_key d field v =
     (case filter (\<lambda>r. snd r field = Some v) (AList.clearjunk d) of
        [] \<Rightarrow> Inl DoesNotExist
      | [r] \<Rightarrow> Inr \<lparr>pk = Some (fst r), attrs = snd r\<rparr>
      | _ \<Rightarrow> Inl MultipleObjectsReturned)"

subsection \<open>The pre-save receiver\<close>

definition update_date_changed ::
  "table \<Rightarrow> int \<Rightarrow> user \<Rightarrow> ExpirySettings \<Rightarrow> error + user" where
  "update_date_changed d now u attrs' =
     (case (case pk u of
              Some k \<Rightarrow>
                (case objects_get d k of
                   Inl e \<Rightarrow> Inl e
                 | Inr old_user \<Rightarrow> getattr old_user (password attrs'))
            | None \<Rightarrow> Inr VNone) of
        Inl e \<Rightarrow> Inl e
      | Inr old_password \<Rightarrow>
          (case getattr u ''password'' of
             Inl e \<Rightarrow> Inl e
           | Inr new_password \<Rightarrow>
               if old_password \<noteq> new_password then
                 (case date_changed attrs' of
                    None \<Rightarrow> Inl TypeError
                  | Some a \<Rightarrow> Inr (setattr u a (VTime now)))
               else Inr u))"

text \<open>The receiver of \<^verbatim>\<open>pre_save\<close>; it returns the instance as the save will write it.
  The arguments \<^verbatim>\<open>sender\<close> and \<^verbatim>\<open>created\<close> are not read.\<close>

definition set_password_changed ::
  "settings \<Rightarrow> table \<Rightarrow> int \<Rightarrow> user \<Rightarrow> bool \<Rightarrow> error + user" where
  "set_password_changed cfg d now instance raw =
     (let attrs' = ExpirySettings_get cfg in
      if \<not> raw \<and> (case date_changed attrs' of None \<Rightarrow> False | Some a \<Rightarrow> a \<noteq> [])
      then update_date_changed d now instance attrs'
      else Inr instance)"

subsection \<open>The authentication backend\<close>

datatype signal = password_has_expired user | account_has_expired user

record world =
  db :: table
  sent :: "signal list"
  logged :: "log_record list"

text \<open>
  \<^verbatim>\<open>user.save()\<close> of the host: the \<^verbatim>\<open>pre_save\<close> signal runs the receiver above (never
  as a raw load), then the row is written under the primary key; a record without a
  primary key is inserted under a fresh one.
\<close>

definition save :: "settings \<Rightarrow> int \<Rightarrow> world \<Rightarrow> user \<Rightarrow> (error + user) \<times> world" where
  "save cfg now w u =
     (case set_password_changed cfg (db w) now u False of
        Inl e \<Rightarrow> (Inl e, w)
      | Inr u' \<Rightarrow>
          (case pk u' of
             Some k \<Rightarrow> (Inr u', w\<lparr>db := AList.update k (attrs u') (db w)\<rparr>)
           | None \<Rightarrow>
               (let k = fold max (map fst (db w)) 0 + 1 in
                (Inr (u'\<lparr>pk := Some k\<rparr>), w\<lparr>db := db w @ [(k, attrs u')]\<rparr>))))"

text \<open>\<^verbatim>\<open>_lookup_user\<close>: \<open>field\<close> is \<^verbatim>\<open>UserModel.USERNAME_FIELD\<close>, \<open>kwargs\<close> the keyword
  arguments of the call. The \<^verbatim>\<open>password\<close> argument is not read.\<close>

definition lookup_user ::
  "string \<Rightarrow> table \<Rightarrow> pyval \<Rightarrow> (string \<rightharpoonup> pyval) \<Rightarrow> error + user option" where
  "lookup_user field d username kwargs =
     (let username' =
        (if username = VNone
         then (case kwargs field of None \<Rightarrow> VNone | Some v \<Rightarrow> v)
         else username)
      in case get_by_natural_key d field username' of
           Inr u \<Rightarrow> Inr (Some u)
         | Inl e \<Rightarrow> if e = DoesNotExist then Inr None else Inl e)"

text \<open>
  \<^verbatim>\<open>AccountExpiryBackend.authenticate\<close>. The result \<open>Inr None\<close> is the return value
  \<^verbatim>\<open>None\<close> that passes the attempt on to the next backend; \<open>t1\<close>, \<open>t2\<close> and \<open>t3\<close> are
  the clock readings of the password check, of the account check and of the receiver
  that the save runs.
\<close>

definition authenticate ::
  "settings \<Rightarrow> string \<Rightarrow> int \<Rightarrow> int \<Rightarrow> int \<Rightarrow> world \<Rightarrow> pyval \<Rightarrow> (string \<rightharpoonup> pyval)
     \<Rightarrow> (error + user option) \<times> world" where
  "authenticate cfg field t1 t2 t3 w username kwargs =
     (case lookup_user field (db w) username kwargs of
        Inl e \<Rightarrow> (Inl e, w)
      | Inr None \<Rightarrow> (Inr None, w)
      | Inr (Some u) \<Rightarrow>
          if (case attrs u ''is_active'' of None \<Rightarrow> False | Some v \<Rightarrow> \<not> truthy v)
          then (Inl (PermissionDenied ''Account is not active''), w)
          else
            (case is_password_expired cfg t1 u of
               (Inl e, lg) \<Rightarrow> (Inl e, w\<lparr>logged := logged w @ lg\<rparr>)
             | (Inr expired, lg) \<Rightarrow>
                 if truthy expired
                 then
                   (Inl (PermissionDenied ''Password has expired''),
                    w\<lparr>logged := logged w @ lg @ [Info ''User's password has expired: %s'' u],
                      sent := sent w @ [password_has_expired u]\<rparr>)
                 else
                   (case is_account_expired cfg t2 u of
                      (Inl e, lg') \<Rightarrow> (Inl e, w\<lparr>logged := logged w @ lg @ lg'\<rparr>)
                    | (Inr stale, lg') \<Rightarrow>
                        if truthy stale
                        then
                          (case save cfg t3
                                  (w\<lparr>logged := logged w @ lg @ lg'
                                        @ [Info ''Disabling stale user account: %s'' u]\<rparr>)
                                  (setattr u ''is_active'' (VBool False)) of
                             (Inl e, w') \<Rightarrow> (Inl e, w')
                           | (Inr u', w') \<Rightarrow>
                               (Inl (PermissionDenied ''Account has expired''),
                                w'\<lparr>sent := sent w' @ [account_has_expired u']\<rparr>))
                        else (Inr None, w\<lparr>logged := logged w @ lg @ lg'\<rparr>))))"

subsection \<open>Sample configurations and records\<close>

text \<open>Concrete settings, stored users and a world holding them, at which the
  properties below are instantiated.\<close>

definition expiry_30 :: settings where
  "expiry_30 =
     \<lparr> PASSWORD_EXPIRY_DAYS = Some 30,
       PASSWORD_EXPIRY_WARNING_DAYS = None,
       AUTH_USER_MODEL_PASSWORD_CHANGE_DATE_ATTR = Some ''password_change_date'',
       AUTH_USER_MODEL_PASSWORD_ATTR = None,
       ACCOUNT_EXPIRY_DAYS = None \<rparr>"

definition days_only_30 :: settings where
  "days_only_30 =
     \<lparr> PASSWORD_EXPIRY_DAYS = Some 30,
       PASSWORD_EXPIRY_WARNING_DAYS = None,
       AUTH_USER_MODEL_PASSWORD_CHANGE_DATE_ATTR = None,
       AUTH_USER_MODEL_PASSWORD_ATTR = None,
       ACCOUNT_EXPIRY_DAYS = None \<rparr>"

definition account_90 :: settings where
  "account_90 =
     \<lparr> PASSWORD_EXPIRY_DAYS = None,
       PASSWORD_EXPIRY_WARNING_DAYS = None,
       AUTH_USER_MODEL_PASSWORD_CHANGE_DATE_ATTR = None,
       AUTH_USER_MODEL_PASSWORD_ATTR = None,
       ACCOUNT_EXPIRY_DAYS = Some 90 \<rparr>"

definition both_30_90 :: settings where
  "both_30_90 =
     \<lparr> PASSWORD_EXPIRY_DAYS = Some 30,
       PASSWORD_EXPIRY_WARNING_DAYS = None,
       AUTH_USER_MODEL_PASSWORD_CHANGE_DATE_ATTR = Some ''password_change_date'',
       AUTH_USER_MODEL_PASSWORD_ATTR = None,
       ACCOUNT_EXPIRY_DAYS = Some 90 \<rparr>"

definition tracking_90 :: settings where
  "tracking_90 =
     \<lparr> PASSWORD_EXPIRY_DAYS = None,
       PASSWORD_EXPIRY_WARNING_DAYS = None,
       AUTH_USER_MODEL_PASSWORD_CHANGE_DATE_ATTR = Some ''password_change_date'',
       AUTH_USER_MODEL_PASSWORD_ATTR = None,
       ACCOUNT_EXPIRY_DAYS = Some 90 \<rparr>"

definition tracking_passwd_90 :: settings where
  "tracking_passwd_90 =
     \<lparr> PASSWORD_EXPIRY_DAYS = None,
       PASSWORD_EXPIRY_WARNING_DAYS = None,
       AUTH_USER_MODEL_PASSWORD_CHANGE_DATE_ATTR = Some ''password_change_date'',
       AUTH_USER_MODEL_PASSWORD_ATTR = Some ''passwd'',
       ACCOUNT_EXPIRY_DAYS = Some 90 \<rparr>"

definition expiry_passwd_30 :: settings where
  "expiry_passwd_30 =
     \<lparr> PASSWORD_EXPIRY_DAYS = Some 30,
       PASSWORD_EXPIRY_WARNING_DAYS = None,
       AUTH_USER_MODEL_PASSWORD_CHANGE_DATE_ATTR = Some ''password_change_date'',
       AUTH_USER_MODEL_PASSWORD_ATTR = Some ''passwd'',
       ACCOUNT_EXPIRY_DAYS = None \<rparr>"

definition alice_row :: "string \<rightharpoonup> pyval" where
  "alice_row =
     [''username'' \<mapsto> VStr ''alice'', ''password'' \<mapsto> VStr ''pbkdf2$a'',
      ''is_active'' \<mapsto> VBool True, ''last_login'' \<mapsto> VTime 0,
      ''password_change_date'' \<mapsto> VTime 0]"

definition alice :: user where
  "alice = \<lparr>pk = Some 1, attrs = alice_row\<rparr>"

definition mallory_row :: "string \<rightharpoonup> pyval" where
  "mallory_row =
     [''username'' \<mapsto> VStr ''mallory'', ''password'' \<mapsto> VStr ''pbkdf2$m'',
      ''is_active'' \<mapsto> VBool False, ''last_login'' \<mapsto> VTime 0,
      ''password_change_date'' \<mapsto> VTime 0]"

definition mallory :: user where
  "mallory = \<lparr>pk = Some 2, attrs = mallory_row\<rparr>"

definition carol_row :: "string \<rightharpoonup> pyval" where
  "carol_row =
     [''username'' \<mapsto> VStr ''carol'', ''password'' \<mapsto> VStr ''pbkdf2$c'',
      ''is_active'' \<mapsto> VBool True, ''last_login'' \<mapsto> VNone,
      ''password_change_date'' \<mapsto> VNone]"

definition carol :: user where
  "carol = \<lparr>pk = Some 3, attrs = carol_row\<rparr>"

definition world0 :: world where
  "world0 = \<lparr>db = [(1, alice_row), (2, mallory_row), (3, carol_row)], sent = [], logged = []\<rparr>"

text \<open>A record that keeps a second credential in \<^verbatim>\<open>passwd\<close>, and a record that has not
  been saved yet.\<close>

definition erin_row :: "string \<rightharpoonup> pyval" where
  "erin_row =
     [''username'' \<mapsto> VStr ''erin'', ''password'' \<mapsto> VStr ''pbkdf2$e'',
      ''passwd'' \<mapsto> VStr ''legacy$e'', ''is_active'' \<mapsto> VBool True,
      ''password_change_date'' \<mapsto> VTime 5]"

definition erin :: user where
  "erin = \<lparr>pk = Some 7, attrs = erin_row\<rparr>"


text \<open>Settings whose day counts put the cutoff before year 1, and a clock reading in
  the year 2024.\<close>

definition expiry_800000 :: settings where
  "expiry_800000 =
     \<lparr> PASSWORD_EXPIRY_DAYS = Some 800000,
       PASSWORD_EXPIRY_WARNING_DAYS = None,
       AUTH_USER_MODEL_PASSWORD_CHANGE_DATE_ATTR = Some ''password_change_date'',
       AUTH_USER_MODEL_PASSWORD_ATTR = None,
       ACCOUNT_EXPIRY_DAYS = None \<rparr>"

definition days_only_800000 :: settings where
  "days_only_800000 =
     \<lparr> PASSWORD_EXPIRY_DAYS = Some 800000,
       PASSWORD_EXPIRY_WARNING_DAYS = None,
       AUTH_USER_MODEL_PASSWORD_CHANGE_DATE_ATTR = None,
       AUTH_USER_MODEL_PASSWORD_ATTR = None,
       ACCOUNT_EXPIRY_DAYS = None \<rparr>"

definition account_800000 :: settings where
  "account_800000 =
     \<lparr> PASSWORD_EXPIRY_DAYS = None,
       PASSWORD_EXPIRY_WARNING_DAYS = None,
       AUTH_USER_MODEL_PASSWORD_CHANGE_DATE_ATTR = None,
       AUTH_USER_MODEL_PASSWORD_ATTR = None,
       ACCOUNT_EXPIRY_DAYS = Some 800000 \<rparr>"

definition year_2024 :: int where
  "year_2024 = timedelta_days 20000"

text \<open>Gail changed her password 5 days before day 100 and last logged in at time 0;
  Henry's record keeps its password under the configured name \<^verbatim>\<open>passwd\<close> only.\<close>

definition gail_row :: "string \<rightharpoonup> pyval" where
  "gail_row =
     [''username'' \<mapsto> VStr ''gail'', ''password'' \<mapsto> VStr ''pbkdf2$g'',
      ''is_active'' \<mapsto> VBool True, ''last_login'' \<mapsto> VTime 0,
      ''password_change_date'' \<mapsto> VTime (timedelta_days 95)]"

definition gail :: user where
  "gail = \<lparr>pk = Some 9, attrs = gail_row\<rparr>"

definition henry_row :: "string \<rightharpoonup> pyval" where
  "henry_row =
     [''username'' \<mapsto> VStr ''henry'', ''passwd'' \<mapsto> VStr ''legacy$h'',
      ''is_active'' \<mapsto> VBool True, ''last_login'' \<mapsto> VTime 0]"

definition henry :: user where
  "henry = \<lparr>pk = Some 8, attrs = henry_row\<rparr>"

definition world1 :: world where
  "world1 = \<lparr>db = [(8, henry_row), (9, gail_row)], sent = [], logged = []\<rparr>"

section \<open>Properties\<close>

subsection \<open>Auxiliary facts\<close>

lemma date_changed_nonempty:
  "date_changed (ExpirySettings_get cfg) = Some a \<Longrightarrow> a \<noteq> []"
  by (auto simp: ExpirySettings_get_def or_none_def split: option.splits if_splits)


text \<open>When the clock reading and the cutoff are both datetimes, the day count is within
  the range of \<^verbatim>\<open>timedelta\<close> and the subtraction returns the cutoff.\<close>

lemma days_in_range:
  assumes "0 < n" and "valid_datetime now" and "valid_datetime (now - timedelta_days n)"
  shows "n \<le> 999999999"
  using assms by (simp add: valid_datetime_def datetime_min_def datetime_max_def timedelta_days_def)

lemma cutoff_password:
  assumes "0 < num_days self" and "valid_datetime now"
    and "valid_datetime (now - timedelta_days (num_days self))"
  shows "earliest_possible_password_change self now
           = Inr (Some (now - timedelta_days (num_days self)))"
  using assms days_in_range [OF assms]
  by (simp add: earliest_possible_password_change_def timedelta_def datetime_sub_def)

lemma cutoff_login:
  assumes "0 < account_expiry self" and "valid_datetime now"
    and "valid_datetime (now - timedelta_days (account_expiry self))"
  shows "earliest_possible_login self now
           = Inr (Some (now - timedelta_days (account_expiry self)))"
  using assms days_in_range [OF assms]
  by (simp add: earliest_possible_login_def timedelta_def datetime_sub_def)




lemma is_password_expired_off:
  assumes "num_days (ExpirySettings_get cfg) \<le> 0"
  shows "is_password_expired cfg now u = (Inr (VBool False), [])"
  using assms
  by (simp add: is_password_expired_def earliest_possible_password_change_def)

lemma is_account_expired_stale:
  assumes "0 < account_expiry (ExpirySettings_get cfg)"
    and "valid_datetime now"
    and "valid_datetime (now - timedelta_days (account_expiry (ExpirySettings_get cfg)))"
    and "attrs u ''last_login'' = Some (VTime t)"
  shows "is_account_expired cfg now u =
     (Inr (VBool (t < now - timedelta_days (account_expiry (ExpirySettings_get cfg)))), [])"
  using assms(4) cutoff_login [OF assms(1-3)]
  by (simp add: is_account_expired_def get_user_last_login_def and_lt_def)


text \<open>A user that the lookup returns is a row of the table, under its primary key.\<close>

lemma lookup_user_row:
  assumes "lookup_user field d username kwargs = Inr (Some u)"
  shows "\<exists>k. pk u = Some k \<and> map_of d k = Some (attrs u)"
proof -
  define key where "key = (if username = VNone
         then (case kwargs field of None \<Rightarrow> VNone | Some v \<Rightarrow> v)
         else username)"
  from assms have g: "get_by_natural_key d field key = Inr u"
    by (auto simp: lookup_user_def Let_def key_def split: sum.splits if_splits)
  then obtain r where r: "filter (\<lambda>r. snd r field = Some key) (AList.clearjunk d) = [r]"
    and u: "u = \<lparr>pk = Some (fst r), attrs = snd r\<rparr>"
    by (auto simp: get_by_natural_key_def split: list.splits)
  from r have "r \<in> set (filter (\<lambda>r. snd r field = Some key) (AList.clearjunk d))" by simp
  then have "(fst r, snd r) \<in> set (AList.clearjunk d)" by simp
  then have "map_of (AList.clearjunk d) (fst r) = Some (snd r)"
    using distinct_clearjunk map_of_is_SomeI by metis
  then have "map_of d (fst r) = Some (snd r)" by (simp add: map_of_clearjunk)
  with u show ?thesis by simp
qed

text \<open>The receiver on an existing record: it compares the attribute of the stored row
  that the settings name with the attribute \<^verbatim>\<open>password\<close> of the instance.\<close>

lemma set_password_changed_existing:
  assumes "date_changed (ExpirySettings_get cfg) = Some a"
    and "pk u = Some k"
    and "map_of d k = Some old"
    and "old (password (ExpirySettings_get cfg)) = Some stored"
    and "attrs u ''password'' = Some incoming"
  shows "set_password_changed cfg d now u False =
           Inr (if stored = incoming then u else setattr u a (VTime now))"
  using assms date_changed_nonempty [OF assms(1)]
  by (simp add: set_password_changed_def update_date_changed_def objects_get_def getattr_def)

text \<open>The receiver never changes the primary key of the instance.\<close>

lemma set_password_changed_pk:
  "set_password_changed cfg d now u raw = Inr u' \<Longrightarrow> pk u' = pk u"
  by (auto simp: set_password_changed_def update_date_changed_def setattr_def Let_def
      split: if_splits option.splits sum.splits)

lemma settings_30 [simp]:
  "num_days (ExpirySettings_get expiry_30) = 30"
  "date_changed (ExpirySettings_get expiry_30) = Some ''password_change_date''"
  "password (ExpirySettings_get expiry_30) = ''password''"
  "account_expiry (ExpirySettings_get expiry_30) = 0"
  by (simp_all add: ExpirySettings_get_def expiry_30_def or_zero_def or_none_def or_default_def)

lemma settings_days_only_30 [simp]:
  "num_days (ExpirySettings_get days_only_30) = 30"
  "date_changed (ExpirySettings_get days_only_30) = None"
  by (simp_all add: ExpirySettings_get_def days_only_30_def or_zero_def or_none_def)

lemma settings_account_90 [simp]:
  "num_days (ExpirySettings_get account_90) = 0"
  "date_changed (ExpirySettings_get account_90) = None"
  "account_expiry (ExpirySettings_get account_90) = 90"
  by (simp_all add: ExpirySettings_get_def account_90_def or_zero_def or_none_def)

lemma settings_30_90 [simp]:
  "num_days (ExpirySettings_get both_30_90) = 30"
  "date_changed (ExpirySettings_get both_30_90) = Some ''password_change_date''"
  "password (ExpirySettings_get both_30_90) = ''password''"
  "account_expiry (ExpirySettings_get both_30_90) = 90"
  by (simp_all add: ExpirySettings_get_def both_30_90_def or_zero_def or_none_def or_default_def)

lemma settings_tracking_90 [simp]:
  "num_days (ExpirySettings_get tracking_90) = 0"
  "date_changed (ExpirySettings_get tracking_90) = Some ''password_change_date''"
  "password (ExpirySettings_get tracking_90) = ''password''"
  "account_expiry (ExpirySettings_get tracking_90) = 90"
  by (simp_all add: ExpirySettings_get_def tracking_90_def or_zero_def or_none_def or_default_def)

lemma settings_tracking_passwd_90 [simp]:
  "num_days (ExpirySettings_get tracking_passwd_90) = 0"
  "date_changed (ExpirySettings_get tracking_passwd_90) = Some ''password_change_date''"
  "password (ExpirySettings_get tracking_passwd_90) = ''passwd''"
  "account_expiry (ExpirySettings_get tracking_passwd_90) = 90"
  by (simp_all add: ExpirySettings_get_def tracking_passwd_90_def or_zero_def or_none_def
      or_default_def)

lemma settings_expiry_passwd_30 [simp]:
  "num_days (ExpirySettings_get expiry_passwd_30) = 30"
  "date_changed (ExpirySettings_get expiry_passwd_30) = Some ''password_change_date''"
  "password (ExpirySettings_get expiry_passwd_30) = ''passwd''"
  by (simp_all add: ExpirySettings_get_def expiry_passwd_30_def or_zero_def or_none_def
      or_default_def)

lemma settings_expiry_800000 [simp]:
  "num_days (ExpirySettings_get expiry_800000) = 800000"
  "date_changed (ExpirySettings_get expiry_800000) = Some ''password_change_date''"
  by (simp_all add: ExpirySettings_get_def expiry_800000_def or_zero_def or_none_def)

lemma settings_days_only_800000 [simp]:
  "num_days (ExpirySettings_get days_only_800000) = 800000"
  "date_changed (ExpirySettings_get days_only_800000) = None"
  by (simp_all add: ExpirySettings_get_def days_only_800000_def or_zero_def or_none_def)

lemma settings_account_800000 [simp]:
  "num_days (ExpirySettings_get account_800000) = 0"
  "date_changed (ExpirySettings_get account_800000) = None"
  "account_expiry (ExpirySettings_get account_800000) = 800000"
  by (simp_all add: ExpirySettings_get_def account_800000_def or_zero_def or_none_def)

lemma valid_sample_times:
  "valid_datetime 0"
  "valid_datetime (timedelta_days 1)"
  "valid_datetime (timedelta_days 10)"
  "valid_datetime (timedelta_days 30)"
  "valid_datetime (timedelta_days 31)"
  "valid_datetime (timedelta_days 70)"
  "valid_datetime (timedelta_days 91)"
  "valid_datetime (timedelta_days 100)"
  "valid_datetime (timedelta_days 400)"
  "valid_datetime (timedelta_days 1000)"
  "valid_datetime year_2024"
  by (simp_all add: valid_datetime_def datetime_min_def datetime_max_def timedelta_days_def
      year_2024_def)

text \<open>From the year 2024, 800000 days back is before year 1.\<close>

lemma cutoff_800000:
  "earliest_possible_password_change (ExpirySettings_get expiry_800000) year_2024
     = Inl OverflowError"
  "earliest_possible_password_change (ExpirySettings_get days_only_800000) year_2024
     = Inl OverflowError"
  "earliest_possible_login (ExpirySettings_get account_800000) year_2024 = Inl OverflowError"
  by (simp_all add: earliest_possible_password_change_def earliest_possible_login_def
      timedelta_def datetime_sub_def valid_datetime_def datetime_min_def datetime_max_def
      timedelta_days_def year_2024_def)

lemma lookup_alice:
  "lookup_user ''username'' (db world0) (VStr ''alice'') Map.empty = Inr (Some alice)"
  by (simp add: lookup_user_def get_by_natural_key_def world0_def alice_row_def mallory_row_def
      carol_row_def alice_def)

lemma lookup_mallory:
  "lookup_user ''username'' (db world0) (VStr ''mallory'') Map.empty = Inr (Some mallory)"
  by (simp add: lookup_user_def get_by_natural_key_def world0_def alice_row_def mallory_row_def
      carol_row_def mallory_def)

lemma lookup_carol:
  "lookup_user ''username'' (db world0) (VStr ''carol'') Map.empty = Inr (Some carol)"
  by (simp add: lookup_user_def get_by_natural_key_def world0_def alice_row_def mallory_row_def
      carol_row_def carol_def)

lemma lookup_gail:
  "lookup_user ''username'' (db world1) (VStr ''gail'') Map.empty = Inr (Some gail)"
  by (simp add: lookup_user_def get_by_natural_key_def world1_def henry_row_def gail_row_def
      gail_def)

lemma lookup_henry:
  "lookup_user ''username'' (db world1) (VStr ''henry'') Map.empty = Inr (Some henry)"
  by (simp add: lookup_user_def get_by_natural_key_def world1_def henry_row_def gail_row_def
      henry_def)

lemma alice_attrs:
  "pk alice = Some 1"
  "attrs alice ''password'' = Some (VStr ''pbkdf2$a'')"
  "attrs alice ''passwd'' = None"
  "attrs alice ''is_active'' = Some (VBool True)"
  "attrs alice ''last_login'' = Some (VTime 0)"
  "attrs alice ''password_change_date'' = Some (VTime 0)"
  by (simp_all add: alice_def alice_row_def)

lemma mallory_attrs:
  "attrs mallory ''is_active'' = Some (VBool False)"
  "attrs mallory ''last_login'' = Some (VTime 0)"
  "attrs mallory ''password_change_date'' = Some (VTime 0)"
  by (simp_all add: mallory_def mallory_row_def)

lemma carol_attrs:
  "attrs carol ''last_login'' = Some VNone"
  "attrs carol ''password_change_date'' = Some VNone"
  "attrs carol ''is_active'' = Some (VBool True)"
  by (simp_all add: carol_def carol_row_def)

lemma gail_attrs:
  "pk gail = Some 9"
  "attrs gail ''password'' = Some (VStr ''pbkdf2$g'')"
  "attrs gail ''is_active'' = Some (VBool True)"
  "attrs gail ''last_login'' = Some (VTime 0)"
  "attrs gail ''password_change_date'' = Some (VTime (timedelta_days 95))"
  by (simp_all add: gail_def gail_row_def)

lemma henry_attrs:
  "pk henry = Some 8"
  "attrs henry ''password'' = None"
  "attrs henry ''passwd'' = Some (VStr ''legacy$h'')"
  "attrs henry ''is_active'' = Some (VBool True)"
  "attrs henry ''last_login'' = Some (VTime 0)"
  by (simp_all add: henry_def henry_row_def)

lemma world0_fields:
  "db world0 = [(1, alice_row), (2, mallory_row), (3, carol_row)]"
  "sent world0 = []"
  "logged world0 = []"
  by (simp_all add: world0_def)

lemma world1_fields:
  "db world1 = [(8, henry_row), (9, gail_row)]"
  "sent world1 = []"
  "logged world1 = []"
  by (simp_all add: world1_def)

subsection \<open>The password check\<close>

text \<open>
  C1, as the code has it. With password expiry enabled (\<open>num_days > 0\<close>), a clock
  reading \<open>now\<close> and a cutoff \<open>now - num_days days\<close> that are both datetimes of the
  library, and a record whose configured attribute holds a datetime \<open>t\<close>,
  \<open>is_password_expired\<close> returns the boolean \<open>t < now - num_days days\<close>: true exactly
  for a date strictly before the cutoff, false for a date after it and false for a date
  equal to it.
\<close>

theorem is_password_expired_cutoff:
  assumes "0 < num_days (ExpirySettings_get cfg)"
    and "date_changed (ExpirySettings_get cfg) = Some a"
    and "attrs u a = Some (VTime t)"
    and "valid_datetime now"
    and "valid_datetime (now - timedelta_days (num_days (ExpirySettings_get cfg)))"
  shows "is_password_expired cfg now u =
    (Inr (VBool (t < now - timedelta_days (num_days (ExpirySettings_get cfg)))), [])"
  using assms(3) date_changed_nonempty [OF assms(2)] assms(2)
    cutoff_password [OF assms(1) assms(4) assms(5)]
  by (simp add: is_password_expired_def get_password_change_date_def and_lt_def)

text \<open>Alice changed her password at time 0: 31 days later it has expired, exactly 30
  days later (the cutoff equals the date of the change) it has not.\<close>

theorem is_password_expired_cutoff_witness:
  "0 < num_days (ExpirySettings_get expiry_30)
   \<and> date_changed (ExpirySettings_get expiry_30) = Some ''password_change_date''
   \<and> attrs alice ''password_change_date'' = Some (VTime 0)
   \<and> valid_datetime (timedelta_days 31)
   \<and> valid_datetime (timedelta_days 31 - timedelta_days (num_days (ExpirySettings_get expiry_30)))
   \<and> is_password_expired expiry_30 (timedelta_days 31) alice = (Inr (VBool True), [])
   \<and> valid_datetime (timedelta_days 30)
   \<and> valid_datetime (timedelta_days 30 - timedelta_days (num_days (ExpirySettings_get expiry_30)))
   \<and> is_password_expired expiry_30 (timedelta_days 30) alice = (Inr (VBool False), [])"
proof -
  have v: "valid_datetime (timedelta_days 31)" "valid_datetime (timedelta_days 30)"
    "valid_datetime (timedelta_days 31 - timedelta_days (num_days (ExpirySettings_get expiry_30)))"
    "valid_datetime (timedelta_days 30 - timedelta_days (num_days (ExpirySettings_get expiry_30)))"
    by (simp_all add: valid_datetime_def datetime_min_def datetime_max_def timedelta_days_def)
  from is_password_expired_cutoff [where cfg = expiry_30 and a = "''password_change_date''"
      and u = alice and t = 0 and now = "timedelta_days 31"]
    is_password_expired_cutoff [where cfg = expiry_30 and a = "''password_change_date''"
      and u = alice and t = 0 and now = "timedelta_days 30"] v
  show ?thesis by (simp add: alice_attrs timedelta_days_def)
qed

text \<open>
  C1, as stated for every \<open>num_days > 0\<close>, fails once the cutoff leaves the range of the
  library's datetime: with \<^verbatim>\<open>PASSWORD_EXPIRY_DAYS = 800000\<close> and a clock in the year 2024
  the subtraction raises \<open>OverflowError\<close>, and \<open>is_password_expired\<close> returns neither
  true nor false for Alice, whose change date is set.
\<close>

theorem is_password_expired_cutoff_overflow:
  "0 < num_days (ExpirySettings_get expiry_800000)
   \<and> date_changed (ExpirySettings_get expiry_800000) = Some ''password_change_date''
   \<and> attrs alice ''password_change_date'' = Some (VTime 0)
   \<and> valid_datetime year_2024
   \<and> is_password_expired expiry_800000 year_2024 alice = (Inl OverflowError, [])"
  by (simp add: is_password_expired_def cutoff_800000 alice_attrs valid_sample_times)

text \<open>
  C7. When \<^verbatim>\<open>PASSWORD_EXPIRY_DAYS\<close> is 0 or missing, \<open>is_password_expired\<close> returns
  \<^verbatim>\<open>False\<close> for every user record and every clock reading, whatever the record holds
  as the date of its last password change, and it writes no log record.
\<close>

theorem is_password_expired_disabled:
  assumes "PASSWORD_EXPIRY_DAYS cfg = None \<or> PASSWORD_EXPIRY_DAYS cfg = Some 0"
  shows "is_password_expired cfg now u = (Inr (VBool False), [])"
  using assms
  by (auto simp: is_password_expired_def earliest_possible_password_change_def
      ExpirySettings_get_def or_zero_def)

theorem is_password_expired_disabled_witness:
  "PASSWORD_EXPIRY_DAYS account_90 = None
   \<and> attrs alice ''password_change_date'' = Some (VTime 0)
   \<and> is_password_expired account_90 (timedelta_days 400) alice = (Inr (VBool False), [])"
  using is_password_expired_disabled [where cfg = account_90 and now = "timedelta_days 400"
      and u = alice]
  by (simp add: account_90_def alice_attrs)




subsection \<open>The pre-save receiver\<close>

text \<open>
  C9. A raw load leaves the instance as it is, for every configuration, every stored
  table and every instance: the receiver does not read the stored password and stamps
  nothing, whether or not the password differs from the stored one.
\<close>

theorem set_password_changed_raw:
  "set_password_changed cfg d now instance True = Inr instance"
  by (simp add: set_password_changed_def)

text \<open>
  C2. The settings name the attribute that holds the password
  (\<^verbatim>\<open>AUTH_USER_MODEL_PASSWORD_ATTR\<close>), and the receiver reads that attribute from the
  stored row, but it reads the fixed attribute \<^verbatim>\<open>password\<close> from the instance being
  saved. With the password kept in \<^verbatim>\<open>passwd\<close>, Erin's record is saved with every
  attribute equal to the stored row, so no password value has changed, under either
  name; the receiver still stamps the change date, moving it from 5 to the current
  time 1000.
\<close>

theorem unchanged_password_is_stamped:
  "date_changed (ExpirySettings_get expiry_passwd_30) = Some ''password_change_date''
   \<and> password (ExpirySettings_get expiry_passwd_30) = ''passwd''
   \<and> objects_get [(7, erin_row)] 7 = Inr erin
   \<and> attrs erin ''password_change_date'' = Some (VTime 5)
   \<and> set_password_changed expiry_passwd_30 [(7, erin_row)] 1000 erin False
       = Inr (setattr erin ''password_change_date'' (VTime 1000))
   \<and> attrs (setattr erin ''password_change_date'' (VTime 1000)) ''password_change_date''
       = Some (VTime 1000)"
  by (simp add: set_password_changed_def update_date_changed_def objects_get_def getattr_def
      setattr_def erin_def erin_row_def)




subsection \<open>The authentication backend\<close>

text \<open>
  C8. When the natural key of the attempt (the \<^verbatim>\<open>username\<close> argument, or the keyword
  argument named by \<^verbatim>\<open>USERNAME_FIELD\<close> when \<^verbatim>\<open>username\<close> is \<^verbatim>\<open>None\<close>) matches no row,
  \<open>authenticate\<close> returns \<^verbatim>\<open>None\<close> and leaves the world as it was: \<open>DoesNotExist\<close> is
  caught, nothing is raised, no signal is sent, nothing is logged or stored.
\<close>

theorem authenticate_unknown_user:
  assumes "get_by_natural_key (db w) field
             (if username = VNone
              then (case kwargs field of None \<Rightarrow> VNone | Some v \<Rightarrow> v)
              else username) = Inl DoesNotExist"
  shows "authenticate cfg field t1 t2 t3 w username kwargs = (Inr None, w)"
  using assms by (simp add: authenticate_def lookup_user_def Let_def)

theorem authenticate_unknown_user_witness:
  "get_by_natural_key (db world0) ''username'' (VStr ''bob'') = Inl DoesNotExist
   \<and> authenticate both_30_90 ''username'' 0 0 0 world0 (VStr ''bob'') Map.empty
       = (Inr None, world0)"
proof -
  have h: "get_by_natural_key (db world0) ''username''
             (if VStr ''bob'' = VNone
              then (case Map.empty ''username'' of None \<Rightarrow> VNone | Some v \<Rightarrow> v)
              else VStr ''bob'') = Inl DoesNotExist"
    by (simp add: get_by_natural_key_def world0_def alice_row_def mallory_row_def carol_row_def)
  from authenticate_unknown_user [OF h] h show ?thesis by simp
qed

text \<open>
  C3. The checks run in the order inactive, password, account, and each is reached only
  when the ones before it have passed. A user whose \<^verbatim>\<open>is_active\<close> is false is denied with
  "Account is not active" and the world is untouched, whatever the password and account
  checks would say. A user who is not inactive and whose password check is true is
  denied with "Password has expired": the log record and the signal
  \<open>password_has_expired\<close> are added, the table is not written and the account check is
  not run, whatever the last login is. When the password check is false the account
  check is run: if it is true the deactivated record is saved and the user is denied with
  "Account has expired" together with the signal \<open>account_has_expired\<close> (an error of the
  save is passed on), and if it is false the attempt is passed on to the next backend.
\<close>

theorem authenticate_order:
  assumes "lookup_user field (db w) username kwargs = Inr (Some u)"
  shows "(attrs u ''is_active'' = Some v \<and> \<not> truthy v \<longrightarrow>
            authenticate cfg field t1 t2 t3 w username kwargs =
              (Inl (PermissionDenied ''Account is not active''), w))
       \<and> ((\<forall>v. attrs u ''is_active'' = Some v \<longrightarrow> truthy v)
            \<and> is_password_expired cfg t1 u = (Inr expired, lg) \<and> truthy expired \<longrightarrow>
            authenticate cfg field t1 t2 t3 w username kwargs =
              (Inl (PermissionDenied ''Password has expired''),
               w\<lparr>logged := logged w @ lg @ [Info ''User's password has expired: %s'' u],
                 sent := sent w @ [password_has_expired u]\<rparr>))
       \<and> ((\<forall>v. attrs u ''is_active'' = Some v \<longrightarrow> truthy v)
            \<and> is_password_expired cfg t1 u = (Inr expired, lg) \<and> \<not> truthy expired
            \<and> is_account_expired cfg t2 u = (Inr stale, lg') \<and> truthy stale
            \<and> save cfg t3
                 (w\<lparr>logged := logged w @ lg @ lg'
                       @ [Info ''Disabling stale user account: %s'' u]\<rparr>)
                 (setattr u ''is_active'' (VBool False)) = (Inr u', w') \<longrightarrow>
            authenticate cfg field t1 t2 t3 w username kwargs =
              (Inl (PermissionDenied ''Account has expired''),
               w'\<lparr>sent := sent w' @ [account_has_expired u']\<rparr>))
       \<and> ((\<forall>v. attrs u ''is_active'' = Some v \<longrightarrow> truthy v)
            \<and> is_password_expired cfg t1 u = (Inr expired, lg) \<and> \<not> truthy expired
            \<and> is_account_expired cfg t2 u = (Inr stale, lg') \<and> truthy stale
            \<and> save cfg t3
                 (w\<lparr>logged := logged w @ lg @ lg'
                       @ [Info ''Disabling stale user account: %s'' u]\<rparr>)
                 (setattr u ''is_active'' (VBool False)) = (Inl e, w') \<longrightarrow>
            authenticate cfg field t1 t2 t3 w username kwargs = (Inl e, w'))
       \<and> ((\<forall>v. attrs u ''is_active'' = Some v \<longrightarrow> truthy v)
            \<and> is_password_expired cfg t1 u = (Inr expired, lg) \<and> \<not> truthy expired
            \<and> is_account_expired cfg t2 u = (Inr stale, lg') \<and> \<not> truthy stale \<longrightarrow>
            authenticate cfg field t1 t2 t3 w username kwargs =
              (Inr None, w\<lparr>logged := logged w @ lg @ lg'\<rparr>))"
  using assms by (auto simp: authenticate_def split: option.splits)

text \<open>Under a 30 day password expiry and a 90 day account expiry, at day 100: Mallory
  is inactive with an old password and an old login; Alice is active with an old
  password and an old login; Gail is active with a password changed at day 95 and a
  login at day 0; Carol is active and has neither date.\<close>

theorem authenticate_order_witness:
  "lookup_user ''username'' (db world0) (VStr ''mallory'') Map.empty = Inr (Some mallory)
   \<and> attrs mallory ''is_active'' = Some (VBool False)
   \<and> is_password_expired both_30_90 (timedelta_days 100) mallory = (Inr (VBool True), [])
   \<and> is_account_expired both_30_90 (timedelta_days 100) mallory = (Inr (VBool True), [])
   \<and> authenticate both_30_90 ''username'' (timedelta_days 100) (timedelta_days 100)
        (timedelta_days 100) world0 (VStr ''mallory'') Map.empty
       = (Inl (PermissionDenied ''Account is not active''), world0)
   \<and> lookup_user ''username'' (db world0) (VStr ''alice'') Map.empty = Inr (Some alice)
   \<and> attrs alice ''is_active'' = Some (VBool True)
   \<and> is_password_expired both_30_90 (timedelta_days 100) alice = (Inr (VBool True), [])
   \<and> is_account_expired both_30_90 (timedelta_days 100) alice = (Inr (VBool True), [])
   \<and> authenticate both_30_90 ''username'' (timedelta_days 100) (timedelta_days 100)
        (timedelta_days 100) world0 (VStr ''alice'') Map.empty
       = (Inl (PermissionDenied ''Password has expired''),
          world0\<lparr>logged := [Info ''User's password has expired: %s'' alice],
                 sent := [password_has_expired alice]\<rparr>)
   \<and> lookup_user ''username'' (db world1) (VStr ''gail'') Map.empty = Inr (Some gail)
   \<and> attrs gail ''is_active'' = Some (VBool True)
   \<and> is_password_expired both_30_90 (timedelta_days 100) gail = (Inr (VBool False), [])
   \<and> is_account_expired both_30_90 (timedelta_days 100) gail = (Inr (VBool True), [])
   \<and> authenticate both_30_90 ''username'' (timedelta_days 100) (timedelta_days 100)
        (timedelta_days 100) world1 (VStr ''gail'') Map.empty
       = (Inl (PermissionDenied ''Account has expired''),
          \<lparr>db = [(8, henry_row), (9, gail_row(''is_active'' \<mapsto> VBool False))],
           sent = [account_has_expired (setattr gail ''is_active'' (VBool False))],
           logged = [Info ''Disabling stale user account: %s'' gail]\<rparr>)
   \<and> lookup_user ''username'' (db world0) (VStr ''carol'') Map.empty = Inr (Some carol)
   \<and> attrs carol ''is_active'' = Some (VBool True)
   \<and> is_password_expired both_30_90 (timedelta_days 100) carol = (Inr VNone, [])
   \<and> is_account_expired both_30_90 (timedelta_days 100) carol = (Inr VNone, [])
   \<and> authenticate both_30_90 ''username'' (timedelta_days 100) (timedelta_days 100)
        (timedelta_days 100) world0 (VStr ''carol'') Map.empty
       = (Inr None, world0)"
proof -
  have cp: "earliest_possible_password_change (ExpirySettings_get both_30_90) (timedelta_days 100)
              = Inr (Some (timedelta_days 70))"
    by (simp add: earliest_possible_password_change_def timedelta_def datetime_sub_def
        valid_datetime_def datetime_min_def datetime_max_def timedelta_days_def)
  have cl: "earliest_possible_login (ExpirySettings_get both_30_90) (timedelta_days 100)
              = Inr (Some (timedelta_days 10))"
    by (simp add: earliest_possible_login_def timedelta_def datetime_sub_def
        valid_datetime_def datetime_min_def datetime_max_def timedelta_days_def)
  have pm: "is_password_expired both_30_90 (timedelta_days 100) mallory = (Inr (VBool True), [])"
    unfolding is_password_expired_def cp
    by (simp add: get_password_change_date_def and_lt_def
        mallory_attrs timedelta_days_def)
  have am: "is_account_expired both_30_90 (timedelta_days 100) mallory = (Inr (VBool True), [])"
    unfolding is_account_expired_def cl
    by (simp add: get_user_last_login_def and_lt_def mallory_attrs
        timedelta_days_def)
  have pa: "is_password_expired both_30_90 (timedelta_days 100) alice = (Inr (VBool True), [])"
    unfolding is_password_expired_def cp
    by (simp add: get_password_change_date_def and_lt_def
        alice_attrs timedelta_days_def)
  have aa: "is_account_expired both_30_90 (timedelta_days 100) alice = (Inr (VBool True), [])"
    unfolding is_account_expired_def cl
    by (simp add: get_user_last_login_def and_lt_def alice_attrs
        timedelta_days_def)
  have pg: "is_password_expired both_30_90 (timedelta_days 100) gail = (Inr (VBool False), [])"
    unfolding is_password_expired_def cp
    by (simp add: get_password_change_date_def and_lt_def
        gail_attrs timedelta_days_def)
  have ag: "is_account_expired both_30_90 (timedelta_days 100) gail = (Inr (VBool True), [])"
    unfolding is_account_expired_def cl
    by (simp add: get_user_last_login_def and_lt_def gail_attrs
        timedelta_days_def)
  have pc: "is_password_expired both_30_90 (timedelta_days 100) carol = (Inr VNone, [])"
    unfolding is_password_expired_def cp
    by (simp add: get_password_change_date_def and_lt_def
        carol_attrs)
  have ac: "is_account_expired both_30_90 (timedelta_days 100) carol = (Inr VNone, [])"
    unfolding is_account_expired_def cl
    by (simp add: get_user_last_login_def and_lt_def carol_attrs)
  have sg: "save both_30_90 (timedelta_days 100)
              (world1\<lparr>logged := [Info ''Disabling stale user account: %s'' gail]\<rparr>)
              (setattr gail ''is_active'' (VBool False))
            = (Inr (setattr gail ''is_active'' (VBool False)),
               \<lparr>db = [(8, henry_row), (9, gail_row(''is_active'' \<mapsto> VBool False))],
                sent = [],
                logged = [Info ''Disabling stale user account: %s'' gail]\<rparr>)"
    by (simp add: save_def set_password_changed_def update_date_changed_def objects_get_def
        getattr_def setattr_def gail_def gail_row_def world1_def)
  from authenticate_order [OF lookup_mallory, where v = "VBool False" and cfg = both_30_90
      and ?t1.0 = "timedelta_days 100" and ?t2.0 = "timedelta_days 100"
      and ?t3.0 = "timedelta_days 100"]
  have m: "authenticate both_30_90 ''username'' (timedelta_days 100) (timedelta_days 100)
        (timedelta_days 100) world0 (VStr ''mallory'') Map.empty
       = (Inl (PermissionDenied ''Account is not active''), world0)"
    by (simp add: mallory_attrs)
  from authenticate_order [OF lookup_alice, where cfg = both_30_90
      and ?t1.0 = "timedelta_days 100" and ?t2.0 = "timedelta_days 100"
      and ?t3.0 = "timedelta_days 100" and expired = "VBool True" and lg = "[]"] pa
  have a: "authenticate both_30_90 ''username'' (timedelta_days 100) (timedelta_days 100)
        (timedelta_days 100) world0 (VStr ''alice'') Map.empty
       = (Inl (PermissionDenied ''Password has expired''),
          world0\<lparr>logged := [Info ''User's password has expired: %s'' alice],
                 sent := [password_has_expired alice]\<rparr>)"
    by (simp add: alice_attrs world0_fields(2,3))
  from authenticate_order [OF lookup_gail, where cfg = both_30_90
      and ?t1.0 = "timedelta_days 100" and ?t2.0 = "timedelta_days 100"
      and ?t3.0 = "timedelta_days 100" and expired = "VBool False" and lg = "[]"
      and stale = "VBool True" and lg' = "[]"
      and u' = "setattr gail ''is_active'' (VBool False)"
      and w' = "\<lparr>db = [(8, henry_row), (9, gail_row(''is_active'' \<mapsto> VBool False))],
                sent = [],
                logged = [Info ''Disabling stale user account: %s'' gail]\<rparr>"] pg ag sg
  have g: "authenticate both_30_90 ''username'' (timedelta_days 100) (timedelta_days 100)
        (timedelta_days 100) world1 (VStr ''gail'') Map.empty
       = (Inl (PermissionDenied ''Account has expired''),
          \<lparr>db = [(8, henry_row), (9, gail_row(''is_active'' \<mapsto> VBool False))],
           sent = [account_has_expired (setattr gail ''is_active'' (VBool False))],
           logged = [Info ''Disabling stale user account: %s'' gail]\<rparr>)"
    by (simp add: gail_attrs world1_fields(2,3))
  from authenticate_order [OF lookup_carol, where cfg = both_30_90
      and ?t1.0 = "timedelta_days 100" and ?t2.0 = "timedelta_days 100"
      and ?t3.0 = "timedelta_days 100" and expired = VNone and lg = "[]"
      and stale = VNone and lg' = "[]"] pc ac
  have c: "authenticate both_30_90 ''username'' (timedelta_days 100) (timedelta_days 100)
        (timedelta_days 100) world0 (VStr ''carol'') Map.empty
       = (Inr None, world0)"
    by (simp add: carol_attrs world0_fields(3))
  from lookup_mallory lookup_alice lookup_gail lookup_carol pm am pa aa pg ag pc ac m a g c
  show ?thesis
    by (simp add: alice_attrs mallory_attrs gail_attrs carol_attrs)
qed

text \<open>
  What the account-expiry branch does when the save goes through. Account expiry is
  enabled, \<open>num_days\<close> is not positive, the user is not inactive, the clock reading and
  the last login are datetimes and the last login is before \<open>t2 - account_expiry days\<close>.
  If the pre-save receiver that the save runs returns the record \<open>u'\<close>, then
  \<open>authenticate\<close> denies with "Account has expired", the row is stored as \<open>u'\<close> under the
  user's primary key, the log record is written and the signal carries \<open>u'\<close>.
\<close>

lemma authenticate_deactivates:
  assumes acct: "0 < account_expiry (ExpirySettings_get cfg)"
    and pw: "num_days (ExpirySettings_get cfg) \<le> 0"
    and look: "lookup_user field (db w) username kwargs = Inr (Some u)"
    and active: "\<forall>v. attrs u ''is_active'' = Some v \<longrightarrow> truthy v"
    and ll: "attrs u ''last_login'' = Some (VTime t)"
    and valid: "valid_datetime t2" "valid_datetime t"
    and stale: "t < t2 - timedelta_days (account_expiry (ExpirySettings_get cfg))"
    and hook: "set_password_changed cfg (db w) t3 (setattr u ''is_active'' (VBool False)) False
                 = Inr u'"
  shows "\<exists>k. pk u = Some k
     \<and> authenticate cfg field t1 t2 t3 w username kwargs =
        (Inl (PermissionDenied ''Account has expired''),
         w\<lparr>db := AList.update k (attrs u') (db w),
           logged := logged w @ [Info ''Disabling stale user account: %s'' u],
           sent := sent w @ [account_has_expired u']\<rparr>)
     \<and> objects_get (AList.update k (attrs u') (db w)) k = Inr u'"
proof -
  let ?n = "account_expiry (ExpirySettings_get cfg)"
  let ?w = "w\<lparr>logged := logged w @ [Info ''Disabling stale user account: %s'' u]\<rparr>"
  from lookup_user_row [OF look] obtain k where k: "pk u = Some k" by blast
  from set_password_changed_pk [OF hook] k have k': "pk u' = Some k"
    by (simp add: setattr_def)
  have p: "is_password_expired cfg t1 u = (Inr (VBool False), [])"
    by (rule is_password_expired_off [OF pw])
  have cut: "valid_datetime (t2 - timedelta_days ?n)"
    using valid stale acct by (simp add: valid_datetime_def timedelta_days_def)
  from is_account_expired_stale [OF acct valid(1) cut ll] stale
  have a: "is_account_expired cfg t2 u = (Inr (VBool True), [])" by simp
  have s: "save cfg t3 ?w (setattr u ''is_active'' (VBool False))
             = (Inr u', ?w\<lparr>db := AList.update k (attrs u') (db w)\<rparr>)"
    using hook k' by (simp add: save_def)
  have act: "\<not> (case attrs u ''is_active'' of None \<Rightarrow> False | Some v \<Rightarrow> \<not> truthy v)"
    using active by (simp split: option.splits)
  have auth: "authenticate cfg field t1 t2 t3 w username kwargs =
        (Inl (PermissionDenied ''Account has expired''),
         w\<lparr>db := AList.update k (attrs u') (db w),
           logged := logged w @ [Info ''Disabling stale user account: %s'' u],
           sent := sent w @ [account_has_expired u']\<rparr>)"
    using act by (simp add: authenticate_def look p a s)
  have "u' = \<lparr>pk = Some k, attrs = attrs u'\<rparr>"
    using k' by (cases u') simp
  then have stored: "objects_get (AList.update k (attrs u') (db w)) k = Inr u'"
    by (simp add: objects_get_def update_conv')
  from k auth stored show ?thesis by blast
qed

text \<open>Alice last logged in at time 0 and the attempt is made 91 days later, under a 90
  day account expiry with change tracking configured and no password expiry: she is
  denied, and her row is stored with \<^verbatim>\<open>is_active = False\<close>.\<close>

lemma authenticate_deactivates_alice:
  "authenticate tracking_90 ''username'' (timedelta_days 91) (timedelta_days 91)
     (timedelta_days 91) world0 (VStr ''alice'') Map.empty =
     (Inl (PermissionDenied ''Account has expired''),
      \<lparr>db = [(1, alice_row(''is_active'' \<mapsto> VBool False)), (2, mallory_row), (3, carol_row)],
       sent = [account_has_expired (setattr alice ''is_active'' (VBool False))],
       logged = [Info ''Disabling stale user account: %s'' alice]\<rparr>)"
proof -
  have h: "set_password_changed tracking_90 (db world0) (timedelta_days 91)
             (setattr alice ''is_active'' (VBool False)) False
           = Inr (setattr alice ''is_active'' (VBool False))"
    by (simp add: set_password_changed_def update_date_changed_def objects_get_def getattr_def
        setattr_def alice_def alice_row_def world0_def)
  have t: "0 < timedelta_days 91 - timedelta_days (account_expiry (ExpirySettings_get tracking_90))"
    by (simp add: timedelta_days_def)
  from authenticate_deactivates [where cfg = tracking_90 and u = alice
      and field = "''username''" and w = world0 and username = "VStr ''alice''"
      and kwargs = Map.empty and t = 0 and ?t1.0 = "timedelta_days 91"
      and ?t2.0 = "timedelta_days 91" and ?t3.0 = "timedelta_days 91"
      and u' = "setattr alice ''is_active'' (VBool False)"]
    t h lookup_alice
  have "authenticate tracking_90 ''username'' (timedelta_days 91) (timedelta_days 91)
        (timedelta_days 91) world0 (VStr ''alice'') Map.empty =
        (Inl (PermissionDenied ''Account has expired''),
         world0\<lparr>db := AList.update 1 (attrs (setattr alice ''is_active'' (VBool False))) (db world0),
           logged := logged world0 @ [Info ''Disabling stale user account: %s'' alice],
           sent := sent world0 @ [account_has_expired (setattr alice ''is_active'' (VBool False))]\<rparr>)"
    by (simp add: alice_attrs valid_sample_times)
  then show ?thesis
    by (simp add: world0_def setattr_def alice_def)
qed

text \<open>
  C4. The backend denies, deactivates, saves and signals as stated whenever the save
  goes through (lemma \<open>authenticate_deactivates\<close>), but the save that deactivates the
  account runs the pre-save receiver, and the receiver reads the configured password attribute
  of the stored row and the fixed attribute \<^verbatim>\<open>password\<close> of the instance without the
  \<^verbatim>\<open>hasattr\<close> guard of the other attribute reads. Under a 90 day account expiry with no
  password expiry, change tracking configured and \<^verbatim>\<open>AUTH_USER_MODEL_PASSWORD_ATTR =
  "passwd"\<close>, an attempt at day 91 for an active user whose last login is at day 0 is
  not denied with "Account has expired". For Henry, whose record keeps its password
  under \<^verbatim>\<open>passwd\<close>, the receiver raises \<open>AttributeError\<close> on \<^verbatim>\<open>user.password\<close>; for Alice,
  whose record has \<^verbatim>\<open>password\<close> but no \<^verbatim>\<open>passwd\<close>, it raises on the stored row. In both
  cases the row is not written and no signal is sent.
\<close>

theorem account_expiry_save_raises:
  "0 < account_expiry (ExpirySettings_get tracking_passwd_90)
   \<and> PASSWORD_EXPIRY_DAYS tracking_passwd_90 = None
   \<and> num_days (ExpirySettings_get tracking_passwd_90) = 0
   \<and> 0 < timedelta_days 91
         - timedelta_days (account_expiry (ExpirySettings_get tracking_passwd_90))
   \<and> lookup_user ''username'' (db world1) (VStr ''henry'') Map.empty = Inr (Some henry)
   \<and> attrs henry ''is_active'' = Some (VBool True)
   \<and> attrs henry ''last_login'' = Some (VTime 0)
   \<and> attrs henry ''passwd'' = Some (VStr ''legacy$h'')
   \<and> is_password_expired tracking_passwd_90 (timedelta_days 91) henry = (Inr (VBool False), [])
   \<and> is_account_expired tracking_passwd_90 (timedelta_days 91) henry = (Inr (VBool True), [])
   \<and> authenticate tracking_passwd_90 ''username'' (timedelta_days 91) (timedelta_days 91)
        (timedelta_days 91) world1 (VStr ''henry'') Map.empty =
        (Inl (AttributeError ''password''),
         world1\<lparr>logged := [Info ''Disabling stale user account: %s'' henry]\<rparr>)
   \<and> lookup_user ''username'' (db world0) (VStr ''alice'') Map.empty = Inr (Some alice)
   \<and> attrs alice ''is_active'' = Some (VBool True)
   \<and> attrs alice ''last_login'' = Some (VTime 0)
   \<and> is_password_expired tracking_passwd_90 (timedelta_days 91) alice = (Inr (VBool False), [])
   \<and> is_account_expired tracking_passwd_90 (timedelta_days 91) alice = (Inr (VBool True), [])
   \<and> authenticate tracking_passwd_90 ''username'' (timedelta_days 91) (timedelta_days 91)
        (timedelta_days 91) world0 (VStr ''alice'') Map.empty =
        (Inl (AttributeError ''passwd''),
         world0\<lparr>logged := [Info ''Disabling stale user account: %s'' alice]\<rparr>)"
proof -
  have t: "0 < timedelta_days 91
         - timedelta_days (account_expiry (ExpirySettings_get tracking_passwd_90))"
    by (simp add: timedelta_days_def)
  have d: "PASSWORD_EXPIRY_DAYS tracking_passwd_90 = None"
    by (simp add: tracking_passwd_90_def)
  have cl: "earliest_possible_login (ExpirySettings_get tracking_passwd_90) (timedelta_days 91)
              = Inr (Some (timedelta_days 1))"
    by (simp add: earliest_possible_login_def timedelta_def datetime_sub_def
        valid_datetime_def datetime_min_def datetime_max_def timedelta_days_def)
  have ph: "is_password_expired tracking_passwd_90 (timedelta_days 91) henry
             = (Inr (VBool False), [])"
    and pa: "is_password_expired tracking_passwd_90 (timedelta_days 91) alice
             = (Inr (VBool False), [])"
    by (simp_all add: is_password_expired_off)
  have ah: "is_account_expired tracking_passwd_90 (timedelta_days 91) henry
             = (Inr (VBool True), [])"
    unfolding is_account_expired_def cl
    by (simp add: get_user_last_login_def and_lt_def henry_attrs timedelta_days_def)
  have aa: "is_account_expired tracking_passwd_90 (timedelta_days 91) alice
             = (Inr (VBool True), [])"
    unfolding is_account_expired_def cl
    by (simp add: get_user_last_login_def and_lt_def alice_attrs timedelta_days_def)
  have sh: "save tracking_passwd_90 (timedelta_days 91)
             (world1\<lparr>logged := [Info ''Disabling stale user account: %s'' henry]\<rparr>)
             (setattr henry ''is_active'' (VBool False))
           = (Inl (AttributeError ''password''),
              world1\<lparr>logged := [Info ''Disabling stale user account: %s'' henry]\<rparr>)"
    by (simp add: save_def set_password_changed_def update_date_changed_def objects_get_def
        getattr_def setattr_def henry_def henry_row_def world1_def)
  have sa: "save tracking_passwd_90 (timedelta_days 91)
             (world0\<lparr>logged := [Info ''Disabling stale user account: %s'' alice]\<rparr>)
             (setattr alice ''is_active'' (VBool False))
           = (Inl (AttributeError ''passwd''),
              world0\<lparr>logged := [Info ''Disabling stale user account: %s'' alice]\<rparr>)"
    by (simp add: save_def set_password_changed_def update_date_changed_def objects_get_def
        getattr_def setattr_def alice_def alice_row_def world0_def)
  have h: "authenticate tracking_passwd_90 ''username'' (timedelta_days 91) (timedelta_days 91)
        (timedelta_days 91) world1 (VStr ''henry'') Map.empty =
        (Inl (AttributeError ''password''),
         world1\<lparr>logged := [Info ''Disabling stale user account: %s'' henry]\<rparr>)"
    by (simp add: authenticate_def lookup_henry henry_attrs ph ah world1_fields(2,3) sh)
  have a: "authenticate tracking_passwd_90 ''username'' (timedelta_days 91) (timedelta_days 91)
        (timedelta_days 91) world0 (VStr ''alice'') Map.empty =
        (Inl (AttributeError ''passwd''),
         world0\<lparr>logged := [Info ''Disabling stale user account: %s'' alice]\<rparr>)"
    by (simp add: authenticate_def lookup_alice alice_attrs pa aa world0_fields(2,3) sa)
  from t d ph pa ah aa h a lookup_henry lookup_alice show ?thesis
    by (simp add: alice_attrs henry_attrs)
qed




end
